theory Spec2Isabelle
  imports Main
begin

section \<open>Strings and the characters the bridge treats specially\<close>

text \<open>
  A JavaScript string is modelled as a \<^typ>\<open>string\<close>: the list of its code units, here
  the code units below 256. The five characters that \<open>escapeForShell\<close> looks for are
  named, since they cannot be written inside a literal.
\<close>

abbreviation BACKSLASH :: char where "BACKSLASH \<equiv> CHR 0x5C"
abbreviation DQUOTE :: char where "DQUOTE \<equiv> CHR 0x22"
abbreviation DOLLAR :: char where "DOLLAR \<equiv> CHR 0x24"
abbreviation BACKTICK :: char where "BACKTICK \<equiv> CHR 0x60"
abbreviation BANG :: char where "BANG \<equiv> CHR 0x21"
abbreviation NEWLINE :: char where "NEWLINE \<equiv> CHR 0x0A"
abbreviation SQUOTE :: char where "SQUOTE \<equiv> CHR 0x27"

text \<open>
  \<open>str.replace(/c/g, rep)\<close> for a pattern that is one literal character: every occurrence
  of \<open>c\<close> is replaced by \<open>rep\<close>, left to right. (None of the replacement strings of
  \<open>escapeForShell\<close> holds a \<open>$\<close>-pattern that \<open>replace\<close> would expand.)
\<close>

fun replace_char :: "char \<Rightarrow> string \<Rightarrow> string \<Rightarrow> string" where
  "replace_char c rep [] = []"
| "replace_char c rep (x # xs) =
     (if x = c then rep @ replace_char c rep xs else x # replace_char c rep xs)"

text \<open>\<open>escapeForShell\<close> (src/skill/index.ts, lines 52 to 59): five passes, in this order.\<close>

definition escapeForShell :: "string \<Rightarrow> string" where
  "escapeForShell str =
     replace_char BANG [BACKSLASH, BANG]
       (replace_char BACKTICK [BACKSLASH, BACKTICK]
         (replace_char DOLLAR [BACKSLASH, DOLLAR]
           (replace_char DQUOTE [BACKSLASH, DQUOTE]
             (replace_char BACKSLASH [BACKSLASH, BACKSLASH] str))))"

subsection \<open>The regular expressions of \<open>sanitizePrompt\<close>\<close>

text \<open>
  The three patterns are sequences of atoms that each match exactly one character: a literal
  compared without regard to case (flag \<open>i\<close>), or the class \<open>\s\<close>. Without the flag
  \<open>u\<close>, case-insensitive comparison of an ASCII literal only ever equates the two ASCII
  cases of a letter.
\<close>

datatype atom = Lit char | Space

definition ascii_lower :: "char \<Rightarrow> char" where
  "ascii_lower c =
     (if 65 \<le> (of_char c :: nat) \<and> (of_char c :: nat) \<le> 90
      then char_of (of_char c + 32 :: nat) else c)"

definition is_space :: "char \<Rightarrow> bool" where
  "is_space c \<longleftrightarrow> (of_char c :: nat) \<in> {9, 10, 11, 12, 13, 32, 160}"

fun atom_match :: "atom \<Rightarrow> char \<Rightarrow> bool" where
  "atom_match (Lit l) c \<longleftrightarrow> ascii_lower c = ascii_lower l"
| "atom_match Space c \<longleftrightarrow> is_space c"

text \<open>Does the pattern match at the start of the string?\<close>

fun match_here :: "atom list \<Rightarrow> string \<Rightarrow> bool" where
  "match_here [] s \<longleftrightarrow> True"
| "match_here (a # as) [] \<longleftrightarrow> False"
| "match_here (a # as) (c # cs) \<longleftrightarrow> atom_match a c \<and> match_here as cs"

text \<open>
  \<open>str.replace(/pat/gi, '')\<close>: scan from the left; where the pattern matches, drop the
  match and go on after it (matches do not overlap, and the text already passed is not
  scanned again); elsewhere keep the character. An empty pattern removes nothing.
\<close>

function remove_all :: "atom list \<Rightarrow> string \<Rightarrow> string" where
  "remove_all pat [] = []"
| "remove_all pat (c # cs) =
     (if pat \<noteq> [] \<and> match_here pat (c # cs)
      then remove_all pat (drop (length pat) (c # cs))
      else c # remove_all pat cs)"
  by pat_completeness auto
termination
  by (relation "measure (\<lambda>(pat, s). length s)") (auto simp: neq_Nil_conv)

definition lits :: "string \<Rightarrow> atom list" where
  "lits s = map Lit s"

text \<open>\<open>sanitizePrompt\<close> (lines 61 to 68): three passes, in this order.\<close>

definition sanitizePrompt :: "string \<Rightarrow> string" where
  "sanitizePrompt prompt =
     remove_all [Lit CHR ''-'', Lit CHR ''p'', Space]
       (remove_all (lits ''--dangerously'')
         (remove_all (lits ''--allowedTools'') prompt))"

section \<open>JavaScript values\<close>

text \<open>
  What \<open>JSON.parse\<close> returns, and what a property read returns, is a JavaScript value.
  A number is kept by the two things this program can observe of it: whether it is truthy
  (neither zero nor NaN) and its string form. The pairs of an object are its own
  properties.
\<close>

datatype js =
    JUndefined
  | JNull
  | JBool bool
  | JNum bool string
  | JStr string
  | JArr "js list"
  | JObj "(string \<times> js) list"

text \<open>ToBoolean, as used by \<open>||\<close>, \<open>&&\<close>, \<open>!\<close> and \<open>if\<close>.\<close>

fun js_truthy :: "js \<Rightarrow> bool" where
  "js_truthy JUndefined \<longleftrightarrow> False"
| "js_truthy JNull \<longleftrightarrow> False"
| "js_truthy (JBool b) \<longleftrightarrow> b"
| "js_truthy (JNum nonzero txt) \<longleftrightarrow> nonzero"
| "js_truthy (JStr s) \<longleftrightarrow> s \<noteq> []"
| "js_truthy (JArr xs) \<longleftrightarrow> True"
| "js_truthy (JObj kvs) \<longleftrightarrow> True"

text \<open>\<open>Array.prototype.join\<close> on strings.\<close>

fun join :: "string \<Rightarrow> string list \<Rightarrow> string" where
  "join sep [] = []"
| "join sep [x] = x"
| "join sep (x # y # ys) = x @ sep @ join sep (y # ys)"

text \<open>A thrown value: an \<open>Error\<close> with its message.\<close>

datatype thrown = Error (message: string)

text \<open>
  ToString, as a template literal applies it; it can throw. A primitive has its string
  form. An object is converted by its \<open>toString\<close> method, then by \<open>valueOf\<close>: an
  object built by \<open>JSON.parse\<close> inherits \<open>Object.prototype.toString\<close>, which gives
  \<open>[object Object]\<close>, unless it has an own property named \<open>toString\<close>; that property
  is never callable, \<open>valueOf\<close> (own, hence not callable, or inherited, returning the
  object itself) gives no primitive either, and the conversion throws a \<open>TypeError\<close>.
  An array is converted by \<open>Array.prototype.join\<close>: its elements, converted from left to
  right, \<open>undefined\<close> and \<open>null\<close> giving the empty string, joined by commas.
\<close>

fun js_to_string :: "js \<Rightarrow> thrown + string"
  and js_elements :: "js list \<Rightarrow> thrown + string list" where
  "js_to_string JUndefined = Inr ''undefined''"
| "js_to_string JNull = Inr ''null''"
| "js_to_string (JBool b) = Inr (if b then ''true'' else ''false'')"
| "js_to_string (JNum nonzero txt) = Inr txt"
| "js_to_string (JStr s) = Inr s"
| "js_to_string (JArr xs) =
     (case js_elements xs of Inl e \<Rightarrow> Inl e | Inr ts \<Rightarrow> Inr (join '','' ts))"
| "js_to_string (JObj kvs) =
     (if map_of kvs ''toString'' \<noteq> None
      then Inl (Error ''Cannot convert object to primitive value'')
      else Inr ''[object Object]'')"
| "js_elements [] = Inr []"
| "js_elements (x # xs) =
     (case (if x = JUndefined \<or> x = JNull then Inr [] else js_to_string x) of
        Inl e \<Rightarrow> Inl e
      | Inr t \<Rightarrow> (case js_elements xs of Inl e \<Rightarrow> Inl e | Inr ts \<Rightarrow> Inr (t # ts)))"

text \<open>
  A property read throws a \<open>TypeError\<close> on \<open>undefined\<close> and \<open>null\<close>; on an object it
  finds the own property or gives \<open>undefined\<close>; on any other value it gives
  \<open>undefined\<close> for the names this program reads (\<open>sessionId\<close>, \<open>session_id\<close>,
  \<open>result\<close>, \<open>content\<close>, \<open>response\<close>), none of which a built-in prototype defines.
\<close>

fun js_get :: "js \<Rightarrow> string \<Rightarrow> thrown + js" where
  "js_get JUndefined k =
     Inl (Error (''Cannot read properties of undefined (reading '' @ [SQUOTE] @ k
                   @ [SQUOTE] @ '')''))"
| "js_get JNull k =
     Inl (Error (''Cannot read properties of null (reading '' @ [SQUOTE] @ k
                   @ [SQUOTE] @ '')''))"
| "js_get (JObj kvs) k = Inr (case map_of kvs k of Some v \<Rightarrow> v | None \<Rightarrow> JUndefined)"
| "js_get v k = Inr JUndefined"

text \<open>\<open>a || b\<close> where evaluating \<open>b\<close> may throw: \<open>b\<close> is evaluated only if \<open>a\<close> is falsy.\<close>

definition js_or :: "js \<Rightarrow> thrown + js \<Rightarrow> thrown + js" where
  "js_or a b = (if js_truthy a then Inr a else b)"

section \<open>Types of the bridge\<close>

text \<open>
  \<open>ClaudeCodeResult\<close>, \<open>ExecuteOptions\<close> and \<open>SessionInfo\<close> (lines 10 to 31). An optional
  field is an option; a field that holds whatever the parsed output held is a \<^typ>\<open>js\<close>
  (absent: \<^const>\<open>JUndefined\<close>). Times are milliseconds.
\<close>

record ClaudeCodeResult =
  success :: bool
  output_r :: js
  result_sessionId :: js
  error :: "string option"
  executionTime :: "int option"

record ExecuteOptions =
  newSession :: "bool option"
  workingDir :: "string option"
  allowedTools :: "string list option"
  timeout :: "nat option"
  appendSystemPrompt :: "string option"

record SessionInfo =
  sessionId :: js
  startedAt :: int
  lastActivity :: int
  messageCount :: nat

text \<open>The options object handed to \<open>exec\<close> (lines 103 to 116).\<close>

record exec_options =
  maxBuffer :: nat
  exec_timeout :: nat
  env :: "string \<rightharpoonup> string"
  cwd :: "string option"

text \<open>
  The promise of \<open>execAsync\<close> either resolves with the standard output and standard error
  of the child, or rejects with an error (non-zero exit, timeout, kill, buffer overflow,
  spawn failure).
\<close>

datatype exec_outcome = Resolved string string | Rejected thrown

text \<open>
  The host the bridge runs on: the ambient environment, the behaviour of the external
  command, \<open>JSON.parse\<close> (\<^const>\<open>None\<close> where it throws a \<open>SyntaxError\<close>), and the
  clock readings of one call: \<open>Date.now()\<close> on entry, \<open>new Date()\<close> at the session
  update, \<open>Date.now()\<close> on exit.
\<close>

record host =
  process_env :: "string \<rightharpoonup> string"
  execAsync :: "string \<Rightarrow> exec_options \<Rightarrow> exec_outcome"
  JSON_parse :: "string \<Rightarrow> js option"
  now_start :: int
  now_update :: int
  now_end :: int

text \<open>
  The process-wide state (lines 37 and 38), with two logs that make the effects on the
  outside world visible: the commands handed to \<open>execAsync\<close>, and the signals sent.
\<close>

type_synonym ChildProcess = nat

record bridge =
  sessions :: "string \<rightharpoonup> SessionInfo"
  activeProcesses :: "string \<rightharpoonup> ChildProcess"
  spawned :: "(string \<times> exec_options) list"
  signalled :: "(ChildProcess \<times> string) list"

definition initial :: bridge where
  "initial = \<lparr>sessions = Map.empty, activeProcesses = Map.empty, spawned = [], signalled = []\<rparr>"

definition DEFAULT_TOOLS :: "string list" where
  "DEFAULT_TOOLS =
     [''Read'', ''Write'', ''Edit'', ''Bash'', ''Glob'', ''Grep'', ''WebFetch'', ''WebSearch'']"

definition DEFAULT_TIMEOUT :: nat where
  "DEFAULT_TIMEOUT = 300000"

definition MAX_BUFFER :: nat where
  "MAX_BUFFER = 10 * 1024 * 1024"

section \<open>The session bridge\<close>

text \<open>
  \<open>claude_code_execute\<close>, lines 82 to 94: the base command, with the system prompt if one
  is given. \<open>options.allowedTools || DEFAULT_TOOLS\<close> takes the default only when the list
  is absent (an array, even an empty one, is truthy); \<open>options.appendSystemPrompt\<close> is
  tested for truthiness.
\<close>

definition base_command :: "string \<Rightarrow> ExecuteOptions \<Rightarrow> string" where
  "base_command prompt options =
     (let cleanPrompt = sanitizePrompt prompt;
          tools = (case allowedTools options of Some ts \<Rightarrow> ts | None \<Rightarrow> DEFAULT_TOOLS);
          toolsArg = ''--allowedTools '' @ [DQUOTE] @ join '','' tools @ [DQUOTE];
          cmd = ''claude -p '' @ [DQUOTE] @ escapeForShell cleanPrompt @ [DQUOTE]
                  @ '' --output-format json '' @ toolsArg;
          cmd = (case appendSystemPrompt options of
                   Some p \<Rightarrow>
                     if p \<noteq> []
                     then cmd @ '' --append-system-prompt '' @ [DQUOTE] @ escapeForShell p
                            @ [DQUOTE]
                     else cmd
                 | None \<Rightarrow> cmd)
      in cmd)"

text \<open>
  Lines 96 to 100: session continuity. A stored session is an object, hence truthy;
  \<open>options.newSession\<close> is tested for truthiness. The template literal converts the
  stored token to a string, and throws where that conversion throws. These lines stand
  before the \<open>try\<close> of line 118.
\<close>

definition command_line ::
  "(string \<rightharpoonup> SessionInfo) \<Rightarrow> string \<Rightarrow> string \<Rightarrow> ExecuteOptions \<Rightarrow> thrown + string" where
  "command_line sess prompt userId options =
     (let cmd = base_command prompt options in
      case sess userId of
        Some existingSession \<Rightarrow>
          if newSession options \<noteq> Some True
          then (case js_to_string (sessionId existingSession) of
                  Inl e \<Rightarrow> Inl e
                | Inr token \<Rightarrow> Inr (cmd @ '' --resume '' @ token))
          else Inr cmd
      | None \<Rightarrow> Inr cmd)"

text \<open>Lines 103 to 116: the execution options.\<close>

definition execOptions_of :: "host \<Rightarrow> ExecuteOptions \<Rightarrow> exec_options" where
  "execOptions_of h options =
     \<lparr>maxBuffer = MAX_BUFFER,
      exec_timeout = (case timeout options of
                        Some t \<Rightarrow> if t \<noteq> 0 then t else DEFAULT_TIMEOUT
                      | None \<Rightarrow> DEFAULT_TIMEOUT),
      env = (process_env h)(''CLAUDE_CODE_OUTPUT_FORMAT'' \<mapsto> ''json''),
      cwd = (case workingDir options of
               Some d \<Rightarrow> if d \<noteq> [] then Some d else None
             | None \<Rightarrow> None)\<rparr>"

text \<open>Sequencing of steps that may throw.\<close>

definition thenT :: "thrown + 'a \<Rightarrow> ('a \<Rightarrow> thrown + 'b) \<Rightarrow> thrown + 'b" where
  "thenT x f = (case x of Inl e \<Rightarrow> Inl e | Inr v \<Rightarrow> f v)"

text \<open>Line 133: \<open>result.sessionId || result.session_id\<close>.\<close>

definition read_sessionId :: "js \<Rightarrow> thrown + js" where
  "read_sessionId result =
     thenT (js_get result ''sessionId'') (\<lambda>a. js_or a (js_get result ''session_id''))"

text \<open>Line 156: \<open>result.result || result.content || result.response || stdout\<close>.\<close>

definition read_output :: "js \<Rightarrow> string \<Rightarrow> thrown + js" where
  "read_output result stdout =
     thenT (js_get result ''result'') (\<lambda>a.
     thenT (js_or a (js_get result ''content'')) (\<lambda>b.
     thenT (js_or b (js_get result ''response'')) (\<lambda>c.
     js_or c (Inr (JStr stdout)))))"

text \<open>Lines 135 to 148: the session of the user is updated in place, or created.\<close>

definition update_session ::
  "int \<Rightarrow> string \<Rightarrow> js \<Rightarrow> (string \<rightharpoonup> SessionInfo) \<Rightarrow> (string \<rightharpoonup> SessionInfo)" where
  "update_session now userId sid sess =
     (case sess userId of
        Some session \<Rightarrow>
          sess(userId \<mapsto> session\<lparr>lastActivity := now,
                                   messageCount := messageCount session + 1,
                                   sessionId := sid\<rparr>)
      | None \<Rightarrow>
          sess(userId \<mapsto> \<lparr>sessionId = sid, startedAt = now, lastActivity = now,
                           messageCount = 1\<rparr>))"

text \<open>
  Lines 118 to 159, the body of \<open>try\<close>: what it returns or throws, and the state it leaves.
  The command is handed to \<open>execAsync\<close> unconditionally; the child is not entered into
  \<open>activeProcesses\<close>. (The two \<open>console\<close> lines are not modelled.)
\<close>

definition execute_try ::
  "host \<Rightarrow> string \<Rightarrow> exec_options \<Rightarrow> string \<Rightarrow> bridge \<Rightarrow> (thrown + ClaudeCodeResult) \<times> bridge" where
  "execute_try h cmd execOptions userId s =
     (let s1 = s\<lparr>spawned := spawned s @ [(cmd, execOptions)]\<rparr> in
      case execAsync h cmd execOptions of
        Rejected e \<Rightarrow> (Inl e, s1)
      | Resolved stdout stderr \<Rightarrow>
          (let result = (case JSON_parse h stdout of
                           Some v \<Rightarrow> v
                         | None \<Rightarrow> JObj [(''content'', JStr stdout)]) in
           case read_sessionId result of
             Inl e \<Rightarrow> (Inl e, s1)
           | Inr sid \<Rightarrow>
               (let s2 = (if js_truthy sid
                          then s1\<lparr>sessions :=
                                    update_session (now_update h) userId sid (sessions s1)\<rparr>
                          else s1) in
                case read_output result stdout of
                  Inl e \<Rightarrow> (Inl e, s2)
                | Inr out \<Rightarrow>
                    (Inr \<lparr>success = True, output_r = out, result_sessionId = sid,
                          error = None,
                          executionTime = Some (now_end h - now_start h)\<rparr>, s2))))"

text \<open>
  \<open>claude_code_execute\<close> (lines 74 to 172): the command and options are built; if that
  throws, the call throws (the promise rejects) and the state is as it was. Otherwise the
  body of \<open>try\<close> runs, and \<open>catch\<close> turns whatever it threw into a result
  (\<open>error.message || "Claude Code execution failed"\<close>).
\<close>

definition claude_code_execute ::
  "host \<Rightarrow> string \<Rightarrow> string \<Rightarrow> ExecuteOptions \<Rightarrow> bridge \<Rightarrow>
     (thrown + ClaudeCodeResult) \<times> bridge" where
  "claude_code_execute h prompt userId options s =
     (case command_line (sessions s) prompt userId options of
        Inl e \<Rightarrow> (Inl e, s)
      | Inr cmd \<Rightarrow>
          (let execOptions = execOptions_of h options
           in case execute_try h cmd execOptions userId s of
                (Inr r, s') \<Rightarrow> (Inr r, s')
              | (Inl e, s') \<Rightarrow>
                  (Inr \<lparr>success = False, output_r = JStr [], result_sessionId = JUndefined,
                        error = Some (if message e \<noteq> [] then message e
                                      else ''Claude Code execution failed''),
                        executionTime = Some (now_end h - now_start h)\<rparr>, s')))"

text \<open>\<open>claude_code_status\<close> (lines 178 to 180): \<open>sessions.get(userId) || null\<close>.\<close>

definition claude_code_status :: "string \<Rightarrow> bridge \<Rightarrow> SessionInfo option" where
  "claude_code_status userId s = sessions s userId"

text \<open>\<open>claude_code_cancel\<close> (lines 182 to 190).\<close>

definition claude_code_cancel :: "string \<Rightarrow> bridge \<Rightarrow> bool \<times> bridge" where
  "claude_code_cancel userId s =
     (case activeProcesses s userId of
        Some process \<Rightarrow>
          (True, s\<lparr>signalled := signalled s @ [(process, ''SIGTERM'')],
                    activeProcesses := (activeProcesses s)(userId := None)\<rparr>)
      | None \<Rightarrow> (False, s))"

text \<open>
  \<open>claude_code_clear_session\<close> (lines 192 to 194): \<open>Map.prototype.delete\<close> returns whether
  the key was present.
\<close>

definition claude_code_clear_session :: "string \<Rightarrow> bridge \<Rightarrow> bool \<times> bridge" where
  "claude_code_clear_session userId s =
     (sessions s userId \<noteq> None, s\<lparr>sessions := (sessions s)(userId := None)\<rparr>)"

text \<open>
  The states the bridge can be in: it starts with both tables empty, and the state changes
  only through the exported operations (\<open>claude_code_status\<close> changes nothing).
\<close>

inductive reachable :: "bridge \<Rightarrow> bool" where
  start: "reachable initial"
| execute: "reachable s \<Longrightarrow> reachable (snd (claude_code_execute h prompt userId options s))"
| cancel: "reachable s \<Longrightarrow> reachable (snd (claude_code_cancel userId s))"
| clear: "reachable s \<Longrightarrow> reachable (snd (claude_code_clear_session userId s))"

section \<open>The shell's reading of a double-quoted word\<close>

text \<open>
  \<open>exec\<close> hands the command line to \<open>/bin/sh -c\<close>. Inside double quotes (POSIX Shell
  Command Language, 2.2.3) a backslash quotes the next character only when that character
  is \<open>$\<close>, a backquote, a double quote or a backslash; before a newline both disappear;
  before any other character the backslash stays. \<open>sh_dquote\<close> reads the text that
  follows an opening double quote up to the closing one and returns the word's value and
  the rest of the line; it returns \<^const>\<open>None\<close> when the quote is not closed or when
  an unquoted \<open>$\<close> or backquote starts an expansion, which is not modelled.
\<close>

fun sh_dquote :: "string \<Rightarrow> (string \<times> string) option" where
  "sh_dquote [] = None"
| "sh_dquote (c # cs) =
     (if c = DQUOTE then Some ([], cs)
      else if c = DOLLAR \<or> c = BACKTICK then None
      else if c = BACKSLASH then
        (case cs of
           [] \<Rightarrow> None
         | d # ds \<Rightarrow>
             if d = DOLLAR \<or> d = BACKTICK \<or> d = DQUOTE \<or> d = BACKSLASH
             then map_option (\<lambda>(a, r). (d # a, r)) (sh_dquote ds)
             else if d = NEWLINE then sh_dquote ds
             else map_option (\<lambda>(a, r). (BACKSLASH # d # a, r)) (sh_dquote ds))
      else map_option (\<lambda>(a, r). (c # a, r)) (sh_dquote cs))"

text \<open>What the five passes of \<open>escapeForShell\<close> do to one character.\<close>

definition esc1 :: "char \<Rightarrow> string" where
  "esc1 c = (if c = BACKSLASH \<or> c = DQUOTE \<or> c = DOLLAR \<or> c = BACKTICK \<or> c = BANG
             then [BACKSLASH, c] else [c])"

section \<open>The router\<close>

text \<open>
  Modelled from the spec: the Router (\<open>router.route\<close>, the Python module \<open>bridge.routing\<close>
  that the documentation refers to) is not among the source files. The spec, section 4.1:
  two pattern sets, "always direct" and "route to agent", matched against the message text;
  if the message matches any "always direct" pattern, route=false, regardless of other
  matches; otherwise, if it matches any "route to agent" pattern, route=true; if neither
  matches, the configured fallback. A pattern is its matching predicate; \<open>keyword\<close> is
  the case-insensitive substring match.
\<close>

type_synonym pattern = "string \<Rightarrow> bool"

record routing_config =
  always_direct :: "pattern list"
  route_to_agent :: "pattern list"
  fallback :: bool

fun occurs :: "atom list \<Rightarrow> string \<Rightarrow> bool" where
  "occurs pat [] \<longleftrightarrow> pat = []"
| "occurs pat (c # cs) \<longleftrightarrow> match_here pat (c # cs) \<or> occurs pat cs"

definition keyword :: "string \<Rightarrow> pattern" where
  "keyword k text = occurs (lits k) text"

definition matches_any :: "pattern list \<Rightarrow> string \<Rightarrow> bool" where
  "matches_any ps text = list_ex (\<lambda>p. p text) ps"

definition route :: "routing_config \<Rightarrow> string \<Rightarrow> bool" where
  "route cfg text =
     (if matches_any (always_direct cfg) text then False
      else if matches_any (route_to_agent cfg) text then True
      else fallback cfg)"

section \<open>Observations and example inputs\<close>

text \<open>The commands that a call hands to \<open>execAsync\<close>: what it adds to the log.\<close>

definition invoked_commands ::
  "host \<Rightarrow> string \<Rightarrow> string \<Rightarrow> ExecuteOptions \<Rightarrow> bridge \<Rightarrow> string list" where
  "invoked_commands h prompt userId options s =
     drop (length (spawned s))
       (map fst (spawned (snd (claude_code_execute h prompt userId options s))))"

text \<open>
  The invariant of a result: a failure has the empty string as output and a non-empty
  error; a success has no error.
\<close>

definition result_ok :: "ClaudeCodeResult \<Rightarrow> bool" where
  "result_ok r \<longleftrightarrow>
     (if success r then error r = None
      else output_r r = JStr [] \<and> (case error r of None \<Rightarrow> False | Some e \<Rightarrow> e \<noteq> []))"

text \<open>Options: the default \<open>{}\<close>, one unknown tool, an empty tool list, a forced new session.\<close>

definition no_options :: ExecuteOptions where
  "no_options = \<lparr>newSession = None, workingDir = None, allowedTools = None, timeout = None,
                  appendSystemPrompt = None\<rparr>"

definition evil_options :: ExecuteOptions where
  "evil_options = no_options\<lparr>allowedTools := Some [''Evil'']\<rparr>"

definition empty_tools_options :: ExecuteOptions where
  "empty_tools_options = no_options\<lparr>allowedTools := Some []\<rparr>"

definition force_new_options :: ExecuteOptions where
  "force_new_options = no_options\<lparr>newSession := Some True\<rparr>"

text \<open>
  Hosts: one whose command prints plain text, one whose command prints
  \<open>{"result": "done", "sessionId": "s-1"}\<close>, and one whose command is killed at the
  timeout.
\<close>

definition json_text :: string where
  "json_text = ''{'' @ [DQUOTE] @ ''result'' @ [DQUOTE] @ '': '' @ [DQUOTE] @ ''done''
     @ [DQUOTE] @ '', '' @ [DQUOTE] @ ''sessionId'' @ [DQUOTE] @ '': '' @ [DQUOTE] @ ''s-1''
     @ [DQUOTE] @ ''}''"

definition parse_example :: "string \<Rightarrow> js option" where
  "parse_example text =
     (if text = json_text
      then Some (JObj [(''result'', JStr ''done''), (''sessionId'', JStr ''s-1'')])
      else None)"

definition host_text :: host where
  "host_text = \<lparr>process_env = Map.empty, execAsync = (\<lambda>cmd opts. Resolved ''ok'' []),
                 JSON_parse = (\<lambda>text. None), now_start = 0, now_update = 5, now_end = 7\<rparr>"

definition host_json :: host where
  "host_json = \<lparr>process_env = Map.empty, execAsync = (\<lambda>cmd opts. Resolved json_text []),
                 JSON_parse = parse_example, now_start = 0, now_update = 5, now_end = 7\<rparr>"

definition host_timeout :: host where
  "host_timeout = \<lparr>process_env = Map.empty,
                    execAsync = (\<lambda>cmd opts. Rejected (Error ''Command failed: claude'')),
                    JSON_parse = (\<lambda>text. None), now_start = 0, now_update = 5, now_end = 100\<rparr>"

text \<open>
  A host whose command prints \<open>{"sessionId": {"toString": 0}}\<close>: a session token that
  is an object with an own property \<open>toString\<close>.
\<close>

definition object_token :: js where
  "object_token = JObj [(''toString'', JNum False ''0'')]"

definition object_token_text :: string where
  "object_token_text = ''{'' @ [DQUOTE] @ ''sessionId'' @ [DQUOTE] @ '': {'' @ [DQUOTE]
     @ ''toString'' @ [DQUOTE] @ '': 0}}''"

definition host_object_token :: host where
  "host_object_token =
     \<lparr>process_env = Map.empty, execAsync = (\<lambda>cmd opts. Resolved object_token_text []),
      JSON_parse = (\<lambda>text. if text = object_token_text
                            then Some (JObj [(''sessionId'', object_token)]) else None),
      now_start = 0, now_update = 5, now_end = 7\<rparr>"

text \<open>The routing configuration of the README, as keywords.\<close>

definition example_routing :: routing_config where
  "example_routing =
     \<lparr>always_direct = [keyword ''weather'', keyword ''time'', keyword ''simple question''],
      route_to_agent = [keyword ''file'', keyword ''folder'', keyword ''directory'',
                        keyword ''create'', keyword ''write'', keyword ''edit''],
      fallback = False\<rparr>"

section \<open>Facts about the operations\<close>

subsection \<open>The command line\<close>

lemma command_line_fresh:
  "sess userId = None \<or> newSession options = Some True \<Longrightarrow>
     command_line sess prompt userId options = Inr (base_command prompt options)"
  by (auto simp: command_line_def Let_def split: option.splits)

lemma command_line_resume:
  "sess userId = Some info \<Longrightarrow> newSession options \<noteq> Some True \<Longrightarrow>
     command_line sess prompt userId options =
       (case js_to_string (sessionId info) of
          Inl e \<Rightarrow> Inl e
        | Inr token \<Rightarrow> Inr (base_command prompt options @ '' --resume '' @ token))"
  by (simp add: command_line_def Let_def)

lemma command_line_Inr:
  "command_line sess prompt userId options = Inr cmd \<Longrightarrow>
     (sess userId = None \<or> newSession options = Some True) \<and> cmd = base_command prompt options \<or>
     (\<exists>info token. sess userId = Some info \<and> newSession options \<noteq> Some True \<and>
        js_to_string (sessionId info) = Inr token \<and>
        cmd = base_command prompt options @ '' --resume '' @ token)"
  by (auto simp: command_line_def Let_def split: option.splits if_splits sum.splits)

subsection \<open>What a call leaves in the state\<close>

lemma execute_thrown:
  "command_line (sessions s) prompt userId options = Inl e \<Longrightarrow>
     claude_code_execute h prompt userId options s = (Inl e, s)"
  by (simp add: claude_code_execute_def)

lemma snd_execute:
  "command_line (sessions s) prompt userId options = Inr cmd \<Longrightarrow>
     snd (claude_code_execute h prompt userId options s) =
       snd (execute_try h cmd (execOptions_of h options) userId s)"
  by (simp add: claude_code_execute_def Let_def split: prod.splits sum.splits)

lemma execute_try_spawned:
  "spawned (snd (execute_try h cmd eo userId s)) = spawned s @ [(cmd, eo)]"
  by (simp add: execute_try_def Let_def split: exec_outcome.splits sum.splits)

lemma execute_try_activeProcesses:
  "activeProcesses (snd (execute_try h cmd eo userId s)) = activeProcesses s"
  by (simp add: execute_try_def Let_def split: exec_outcome.splits sum.splits)

lemma execute_try_signalled:
  "signalled (snd (execute_try h cmd eo userId s)) = signalled s"
  by (simp add: execute_try_def Let_def split: exec_outcome.splits sum.splits)

lemma execute_tables:
  "activeProcesses (snd (claude_code_execute h prompt userId options s)) = activeProcesses s \<and>
   signalled (snd (claude_code_execute h prompt userId options s)) = signalled s"
proof (cases "command_line (sessions s) prompt userId options")
  case (Inl e)
  then show ?thesis by (simp add: execute_thrown)
next
  case (Inr cmd)
  then show ?thesis
    by (simp add: snd_execute execute_try_activeProcesses execute_try_signalled)
qed

lemma spawned_execute:
  "command_line (sessions s) prompt userId options = Inr cmd \<Longrightarrow>
     spawned (snd (claude_code_execute h prompt userId options s)) =
       spawned s @ [(cmd, execOptions_of h options)]"
  by (simp add: snd_execute execute_try_spawned)

lemma invoked_commands_built:
  "command_line (sessions s) prompt userId options = Inr cmd \<Longrightarrow>
     invoked_commands h prompt userId options s = [cmd]"
  by (simp add: invoked_commands_def spawned_execute)

lemma invoked_commands_thrown:
  "command_line (sessions s) prompt userId options = Inl e \<Longrightarrow>
     invoked_commands h prompt userId options s = []"
  by (simp add: invoked_commands_def execute_thrown)

lemma cancel_nothing:
  "activeProcesses s = Map.empty \<Longrightarrow> claude_code_cancel userId s = (False, s)"
  by (simp add: claude_code_cancel_def)

lemma reachable_no_process:
  "reachable s \<Longrightarrow> activeProcesses s = Map.empty \<and> signalled s = []"
proof (induction rule: reachable.induct)
  case start
  show ?case by (simp add: initial_def)
next
  case (execute s h prompt userId options)
  then show ?case by (simp add: execute_tables)
next
  case (cancel s userId)
  then show ?case by (simp add: cancel_nothing)
next
  case (clear s userId)
  then show ?case by (simp add: claude_code_clear_session_def)
qed

subsection \<open>What the body of \<open>try\<close> returns and throws\<close>

lemma read_output_unparsed:
  "read_output (JObj [(''content'', JStr stdout)]) stdout = Inr (JStr stdout)"
  by (simp add: read_output_def thenT_def js_or_def)

lemma read_sessionId_unparsed:
  "read_sessionId (JObj [(''content'', JStr stdout)]) = Inr JUndefined"
  by (simp add: read_sessionId_def thenT_def js_or_def)

lemma read_output_after:
  "read_sessionId result = Inr sid \<Longrightarrow> \<exists>out. read_output result stdout = Inr out"
  by (cases result) (auto simp: read_sessionId_def read_output_def thenT_def js_or_def)

lemma read_sessionId_throws_iff:
  "(\<exists>e. read_sessionId result = Inl e) \<longleftrightarrow> result = JNull \<or> result = JUndefined"
  by (cases result) (auto simp: read_sessionId_def thenT_def js_or_def)

lemma execute_try_Inr:
  "fst (execute_try h cmd eo userId s) = Inr r \<Longrightarrow> success r \<and> error r = None"
  by (auto simp: execute_try_def Let_def split: exec_outcome.splits sum.splits)

lemma execute_try_Rejected:
  "execAsync h cmd eo = Rejected e \<Longrightarrow> fst (execute_try h cmd eo userId s) = Inl e"
  by (simp add: execute_try_def)

lemma execute_cases:
  assumes "command_line (sessions s) prompt userId options = Inr cmd"
  shows
  "(\<exists>r. fst (execute_try h cmd (execOptions_of h options) userId s) = Inr r \<and>
         fst (claude_code_execute h prompt userId options s) = Inr r) \<or>
   (\<exists>e. fst (execute_try h cmd (execOptions_of h options) userId s) = Inl e \<and>
         fst (claude_code_execute h prompt userId options s) =
           Inr \<lparr>success = False, output_r = JStr [], result_sessionId = JUndefined,
                 error = Some (if message e \<noteq> [] then message e
                               else ''Claude Code execution failed''),
                 executionTime = Some (now_end h - now_start h)\<rparr>)"
  using assms
  by (cases "execute_try h cmd (execOptions_of h options) userId s")
     (auto simp: claude_code_execute_def Let_def split: sum.splits)

text \<open>
  Once the command is built the call returns a result, and that result is a success exactly
  when the command resolves and its output does not parse to \<open>null\<close> (reading a property
  of \<open>null\<close> throws inside \<open>try\<close>).
\<close>

lemma success_iff:
  assumes c: "command_line (sessions s) prompt userId options = Inr cmd"
  shows "\<exists>r. fst (claude_code_execute h prompt userId options s) = Inr r \<and>
     (success r \<longleftrightarrow>
       (\<exists>out err. execAsync h cmd (execOptions_of h options) = Resolved out err \<and>
                 JSON_parse h out \<noteq> Some JNull \<and> JSON_parse h out \<noteq> Some JUndefined))"
proof (cases "execAsync h cmd (execOptions_of h options)")
  case (Rejected e)
  with c show ?thesis
    by (simp add: claude_code_execute_def execute_try_def)
next
  case (Resolved out err)
  let ?result = "case JSON_parse h out of Some v \<Rightarrow> v
                 | None \<Rightarrow> JObj [(''content'', JStr out)]"
  show ?thesis
  proof (cases "read_sessionId ?result")
    case (Inl e)
    then have "?result = JNull \<or> ?result = JUndefined"
      using read_sessionId_throws_iff by blast
    then have "JSON_parse h out = Some JNull \<or> JSON_parse h out = Some JUndefined"
      by (auto split: option.splits)
    with c Resolved Inl show ?thesis
      by (auto simp: claude_code_execute_def execute_try_def Let_def)
  next
    case (Inr sid)
    then obtain outv where o: "read_output ?result out = Inr outv"
      using read_output_after by blast
    from Inr have "\<not> (?result = JNull \<or> ?result = JUndefined)"
      using read_sessionId_throws_iff[of ?result] by auto
    then have "JSON_parse h out \<noteq> Some JNull \<and> JSON_parse h out \<noteq> Some JUndefined"
      by (auto split: option.splits)
    with c Resolved Inr o show ?thesis
      by (simp add: claude_code_execute_def execute_try_def Let_def)
  qed
qed

text \<open>
  Every result that a call returns satisfies the invariant, and a rejection of the
  subprocess is returned as a failure that carries its message.
\<close>

lemma returned_result_invariant:
  assumes "fst (claude_code_execute h prompt userId options s) = Inr r"
  shows "result_ok r"
proof (cases "command_line (sessions s) prompt userId options")
  case (Inl e)
  with assms show ?thesis by (simp add: execute_thrown)
next
  case (Inr cmd)
  from execute_cases[OF Inr, of h] assms show ?thesis
    by (auto simp: result_ok_def dest: execute_try_Inr)
qed

lemma rejection_is_captured:
  assumes "command_line (sessions s) prompt userId options = Inr cmd"
    and "execAsync h cmd (execOptions_of h options) = Rejected e"
  shows "fst (claude_code_execute h prompt userId options s) =
           Inr \<lparr>success = False, output_r = JStr [], result_sessionId = JUndefined,
                 error = Some (if message e \<noteq> [] then message e
                               else ''Claude Code execution failed''),
                 executionTime = Some (now_end h - now_start h)\<rparr>"
  using assms by (simp add: claude_code_execute_def execute_try_def)

subsection \<open>The session table\<close>

lemma sessions_after_token:
  assumes "claude_code_execute h prompt userId options s = (Inr r, s')"
    and "success r" and "js_truthy (result_sessionId r)"
  shows "\<exists>info. sessions s' userId = Some info \<and> sessionId info = result_sessionId r"
proof (cases "command_line (sessions s) prompt userId options")
  case (Inl e)
  with assms show ?thesis by (simp add: execute_thrown)
next
  case (Inr cmd)
  with assms show ?thesis
    by (auto simp: claude_code_execute_def execute_try_def Let_def update_session_def
          split: exec_outcome.splits sum.splits option.splits if_splits)
qed

subsection \<open>The example inputs\<close>

lemma hosts_eval:
  "execAsync host_text c eo = Resolved ''ok'' []"
  "JSON_parse host_text t = None"
  "execAsync host_json c eo = Resolved json_text []"
  "JSON_parse host_json json_text =
     Some (JObj [(''result'', JStr ''done''), (''sessionId'', JStr ''s-1'')])"
  "execAsync host_timeout c eo = Rejected (Error ''Command failed: claude'')"
  "now_update host_json = 5"
  "now_start host_text = 0"
  "now_end host_text = 7"
  "execAsync host_object_token c eo = Resolved object_token_text []"
  "JSON_parse host_object_token object_token_text = Some (JObj [(''sessionId'', object_token)])"
  "now_update host_object_token = 5"
  by (simp_all add: host_text_def host_json_def host_timeout_def parse_example_def
        host_object_token_def)

lemma options_eval:
  "newSession no_options = None"
  "newSession force_new_options = Some True"
  "newSession evil_options = None"
  "newSession empty_tools_options = None"
  by (simp_all add: no_options_def force_new_options_def evil_options_def
        empty_tools_options_def)

lemma initial_sessions: "sessions initial userId = None"
  by (simp add: initial_def)

lemma base_command_examples:
  "base_command ''hi'' evil_options =
     ''claude -p '' @ [DQUOTE] @ ''hi'' @ [DQUOTE] @ '' --output-format json --allowedTools ''
        @ [DQUOTE] @ ''Evil'' @ [DQUOTE]"
  "base_command ''hi'' empty_tools_options =
     ''claude -p '' @ [DQUOTE] @ ''hi'' @ [DQUOTE] @ '' --output-format json --allowedTools ''
        @ [DQUOTE] @ [DQUOTE]"
  "base_command ''--dangerously'' no_options =
     ''claude -p '' @ [DQUOTE] @ [DQUOTE] @ '' --output-format json --allowedTools ''
        @ [DQUOTE] @ ''Read,Write,Edit,Bash,Glob,Grep,WebFetch,WebSearch'' @ [DQUOTE]"
  "base_command ''--resume abc'' no_options =
     ''claude -p '' @ [DQUOTE] @ ''--resume abc'' @ [DQUOTE]
       @ '' --output-format json --allowedTools '' @ [DQUOTE]
       @ ''Read,Write,Edit,Bash,Glob,Grep,WebFetch,WebSearch'' @ [DQUOTE]"
  "base_command ''what is in that file now'' no_options =
     ''claude -p '' @ [DQUOTE] @ ''what is in that file now'' @ [DQUOTE]
       @ '' --output-format json --allowedTools '' @ [DQUOTE]
       @ ''Read,Write,Edit,Bash,Glob,Grep,WebFetch,WebSearch'' @ [DQUOTE]"
  "base_command ''what is in that file now'' force_new_options =
     ''claude -p '' @ [DQUOTE] @ ''what is in that file now'' @ [DQUOTE]
       @ '' --output-format json --allowedTools '' @ [DQUOTE]
       @ ''Read,Write,Edit,Bash,Glob,Grep,WebFetch,WebSearch'' @ [DQUOTE]"
  by (simp_all add: base_command_def Let_def evil_options_def empty_tools_options_def
        force_new_options_def no_options_def DEFAULT_TOOLS_def sanitizePrompt_def lits_def
        escapeForShell_def ascii_lower_def is_space_def)

text \<open>A call from the initial state with the host that prints plain text.\<close>

lemma text_call_result:
  "newSession options = None \<Longrightarrow>
     fst (claude_code_execute host_text prompt userId options initial) =
       Inr \<lparr>success = True, output_r = JStr ''ok'', result_sessionId = JUndefined,
             error = None, executionTime = Some 7\<rparr>"
  by (simp add: claude_code_execute_def command_line_fresh initial_sessions execute_try_def
        hosts_eval Let_def read_sessionId_unparsed read_output_unparsed)

text \<open>
  The first scenario of the spec: the command prints
  \<open>{"result": "done", "sessionId": "s-1"}\<close>, and a session with one message is created.
\<close>

lemma first_call_session:
  "sessions (snd (claude_code_execute host_json ''create a file report.txt'' ''u1'' no_options
      initial)) ''u1'' =
     Some \<lparr>sessionId = JStr ''s-1'', startedAt = 5, lastActivity = 5, messageCount = 1\<rparr>"
  by (simp add: claude_code_execute_def command_line_fresh initial_sessions execute_try_def
        hosts_eval Let_def read_sessionId_def read_output_def thenT_def js_or_def
        update_session_def initial_def)

text \<open>The same with a command that prints an object as the session token.\<close>

lemma object_token_session:
  "sessions (snd (claude_code_execute host_object_token ''hi'' ''u1'' no_options initial))
      ''u1'' =
     Some \<lparr>sessionId = object_token, startedAt = 5, lastActivity = 5, messageCount = 1\<rparr>"
  by (simp add: claude_code_execute_def command_line_fresh initial_sessions execute_try_def
        hosts_eval Let_def read_sessionId_def read_output_def thenT_def js_or_def
        update_session_def initial_def object_token_def)

subsection \<open>Escaping, read back by the shell\<close>

lemma escapeForShell_Cons: "escapeForShell (c # cs) = esc1 c @ escapeForShell cs"
  by (simp add: escapeForShell_def esc1_def)

lemma escapeForShell_Nil: "escapeForShell [] = []"
  by (simp add: escapeForShell_def)

text \<open>
  The shell gives back the text with a backslash left before every exclamation mark; a
  text without exclamation marks comes back unchanged.
\<close>

lemma sh_dquote_escapeForShell:
  "sh_dquote (escapeForShell p @ DQUOTE # rest) =
     Some (replace_char BANG [BACKSLASH, BANG] p, rest)"
  by (induction p) (auto simp: escapeForShell_Cons escapeForShell_Nil esc1_def)

lemma escapeForShell_roundtrip_no_bang:
  "BANG \<notin> set p \<Longrightarrow> sh_dquote (escapeForShell p @ DQUOTE # rest) = Some (p, rest)"
  by (induction p) (auto simp: escapeForShell_Cons escapeForShell_Nil esc1_def)

section \<open>The claims\<close>

subsection \<open>C1: the tool list is not validated\<close>

text \<open>
  Claim C1 says that a call whose \<open>allowedTools\<close> holds a name outside the enumeration, or
  is empty, is rejected before any external process is invoked. The code has no such
  check. Counterexample: with the one unknown tool \<open>Evil\<close>, and with the empty list, the
  call returns a success and the command that was run carries the list as given.
\<close>

theorem unknown_tool_not_rejected:
  "allowedTools evil_options = Some [''Evil''] \<and> ''Evil'' \<notin> set DEFAULT_TOOLS \<and>
   fst (claude_code_execute host_text ''hi'' ''u1'' evil_options initial) =
     Inr \<lparr>success = True, output_r = JStr ''ok'', result_sessionId = JUndefined,
           error = None, executionTime = Some 7\<rparr> \<and>
   invoked_commands host_text ''hi'' ''u1'' evil_options initial =
     [''claude -p '' @ [DQUOTE] @ ''hi'' @ [DQUOTE] @ '' --output-format json --allowedTools ''
        @ [DQUOTE] @ ''Evil'' @ [DQUOTE]] \<and>
   allowedTools empty_tools_options = Some [] \<and>
   fst (claude_code_execute host_text ''hi'' ''u1'' empty_tools_options initial) =
     Inr \<lparr>success = True, output_r = JStr ''ok'', result_sessionId = JUndefined,
           error = None, executionTime = Some 7\<rparr> \<and>
   invoked_commands host_text ''hi'' ''u1'' empty_tools_options initial =
     [''claude -p '' @ [DQUOTE] @ ''hi'' @ [DQUOTE] @ '' --output-format json --allowedTools ''
        @ [DQUOTE] @ [DQUOTE]]"
proof -
  have a: "allowedTools evil_options = Some [''Evil''] \<and> ''Evil'' \<notin> set DEFAULT_TOOLS \<and>
           allowedTools empty_tools_options = Some []"
    by (simp add: evil_options_def empty_tools_options_def no_options_def DEFAULT_TOOLS_def)
  have b: "invoked_commands host_text ''hi'' ''u1'' evil_options initial =
             [base_command ''hi'' evil_options]"
    by (rule invoked_commands_built) (simp add: command_line_fresh initial_sessions)
  have c: "invoked_commands host_text ''hi'' ''u1'' empty_tools_options initial =
             [base_command ''hi'' empty_tools_options]"
    by (rule invoked_commands_built) (simp add: command_line_fresh initial_sessions)
  from a b c show ?thesis
    by (simp add: text_call_result options_eval base_command_examples)
qed

text \<open>
  Claim C1, amended: for every call whose \<open>allowedTools\<close> list holds a name outside the
  enumeration, or is empty, \<open>claude_code_execute\<close> does not reject the list: whenever
  the command line is built (lines 82 to 100 do not throw), the list is joined with
  commas, as given, into its \<open>--allowedTools\<close> argument, the command is handed to the
  external process, and the call returns a result.
\<close>

theorem allowedTools_not_validated:
  assumes "allowedTools options = Some ts"
    and "\<not> set ts \<subseteq> set DEFAULT_TOOLS \<or> ts = []"
    and "command_line (sessions s) prompt userId options = Inr cmd"
  shows "spawned (snd (claude_code_execute h prompt userId options s)) =
           spawned s @ [(cmd, execOptions_of h options)] \<and>
         (\<exists>r. fst (claude_code_execute h prompt userId options s) = Inr r) \<and>
         (\<exists>rest. cmd =
            ''claude -p '' @ [DQUOTE] @ escapeForShell (sanitizePrompt prompt) @ [DQUOTE]
              @ '' --output-format json --allowedTools '' @ [DQUOTE] @ join '','' ts
              @ [DQUOTE] @ rest)"
proof (intro conjI)
  show "spawned (snd (claude_code_execute h prompt userId options s)) =
           spawned s @ [(cmd, execOptions_of h options)]"
    using assms(3) by (rule spawned_execute)
next
  show "\<exists>r. fst (claude_code_execute h prompt userId options s) = Inr r"
    using success_iff[OF assms(3)] by blast
next
  have "\<exists>rest. base_command prompt options =
            ''claude -p '' @ [DQUOTE] @ escapeForShell (sanitizePrompt prompt) @ [DQUOTE]
              @ '' --output-format json --allowedTools '' @ [DQUOTE] @ join '','' ts
              @ [DQUOTE] @ rest"
    using assms(1) by (simp add: base_command_def Let_def split: option.splits)
  then obtain rest where "base_command prompt options =
            ''claude -p '' @ [DQUOTE] @ escapeForShell (sanitizePrompt prompt) @ [DQUOTE]
              @ '' --output-format json --allowedTools '' @ [DQUOTE] @ join '','' ts
              @ [DQUOTE] @ rest" ..
  with command_line_Inr[OF assms(3)]
  show "\<exists>rest. cmd =
            ''claude -p '' @ [DQUOTE] @ escapeForShell (sanitizePrompt prompt) @ [DQUOTE]
              @ '' --output-format json --allowedTools '' @ [DQUOTE] @ join '','' ts
              @ [DQUOTE] @ rest"
    by auto
qed

text \<open>Witness for C1, amended: the call with the unknown tool \<open>Evil\<close>.\<close>

theorem allowedTools_not_validated_witness:
  "allowedTools evil_options = Some [''Evil''] \<and> \<not> set [''Evil''] \<subseteq> set DEFAULT_TOOLS \<and>
   command_line (sessions initial) ''hi'' ''u1'' evil_options =
     Inr (base_command ''hi'' evil_options) \<and>
   spawned (snd (claude_code_execute host_text ''hi'' ''u1'' evil_options initial)) =
     [(base_command ''hi'' evil_options, execOptions_of host_text evil_options)] \<and>
   (\<exists>rest. base_command ''hi'' evil_options =
      ''claude -p '' @ [DQUOTE] @ escapeForShell (sanitizePrompt ''hi'') @ [DQUOTE]
        @ '' --output-format json --allowedTools '' @ [DQUOTE] @ join '','' [''Evil'']
        @ [DQUOTE] @ rest)"
proof -
  have a: "allowedTools evil_options = Some [''Evil'']"
    by (simp add: evil_options_def no_options_def)
  have b: "\<not> set [''Evil''] \<subseteq> set DEFAULT_TOOLS \<or> [''Evil''] = ([] :: string list)"
    by (simp add: DEFAULT_TOOLS_def)
  have c: "command_line (sessions initial) ''hi'' ''u1'' evil_options =
             Inr (base_command ''hi'' evil_options)"
    by (simp add: command_line_fresh initial_sessions)
  from allowedTools_not_validated[OF a b c, of host_text] a b c
  show ?thesis by (simp add: initial_def)
qed

subsection \<open>C2: session continuity\<close>

text \<open>
  Claim C2: the command that \<open>claude_code_execute\<close> constructs carries a resume reference
  to the stored session token if and only if a session record exists for the user and
  \<open>newSession\<close> is not set. Stated on the commands that the call hands to the external
  process: each of them is the base command followed by \<open>--resume\<close> and a token exactly
  when a record exists and the new session is not forced; when the stored token is the
  string \<open>t\<close> (more generally, when it converts to the string \<open>t\<close>), the one command
  handed over is the base command followed by \<open>--resume t\<close>; without a record, or with
  \<open>newSession = true\<close> whatever the table holds, it is the base command alone; and when
  the state is the one left by a call for the same user that returned the token \<open>T1\<close>,
  a string (more generally, a value that converts to a string), the token resumed is
  \<open>T1\<close>. A session token is a string in \<open>SessionInfo\<close>; for a stored value whose
  conversion to a string throws, line 99 throws and no command is constructed.
\<close>

theorem resume_iff_session_and_not_forced:
  "(\<forall>cmd. cmd \<in> set (invoked_commands h prompt userId options s) \<longrightarrow>
      ((\<exists>t. cmd = base_command prompt options @ '' --resume '' @ t) \<longleftrightarrow>
         sessions s userId \<noteq> None \<and> newSession options \<noteq> Some True)) \<and>
   (\<forall>info t. sessions s userId = Some info \<and> sessionId info = JStr t \<and>
        newSession options \<noteq> Some True \<longrightarrow>
      invoked_commands h prompt userId options s =
        [base_command prompt options @ '' --resume '' @ t]) \<and>
   (\<forall>info t. sessions s userId = Some info \<and> js_to_string (sessionId info) = Inr t \<and>
        newSession options \<noteq> Some True \<longrightarrow>
      invoked_commands h prompt userId options s =
        [base_command prompt options @ '' --resume '' @ t]) \<and>
   (sessions s userId = None \<or> newSession options = Some True \<longrightarrow>
      invoked_commands h prompt userId options s = [base_command prompt options]) \<and>
   (\<forall>h1 prompt1 options1 s0 r1 t1.
      claude_code_execute h1 prompt1 userId options1 s0 = (Inr r1, s) \<and> success r1 \<and>
      result_sessionId r1 = JStr t1 \<and> t1 \<noteq> [] \<and> newSession options \<noteq> Some True \<longrightarrow>
      invoked_commands h prompt userId options s =
        [base_command prompt options @ '' --resume '' @ t1]) \<and>
   (\<forall>h1 prompt1 options1 s0 r1 t1.
      claude_code_execute h1 prompt1 userId options1 s0 = (Inr r1, s) \<and> success r1 \<and>
      js_truthy (result_sessionId r1) \<and> js_to_string (result_sessionId r1) = Inr t1 \<and>
      newSession options \<noteq> Some True \<longrightarrow>
      invoked_commands h prompt userId options s =
        [base_command prompt options @ '' --resume '' @ t1]) \<and>
   (\<forall>info e. sessions s userId = Some info \<and> js_to_string (sessionId info) = Inl e \<and>
        newSession options \<noteq> Some True \<longrightarrow>
      invoked_commands h prompt userId options s = [])"
proof -
  have conv: "invoked_commands h prompt userId options s =
        [base_command prompt options @ '' --resume '' @ t]"
    if "sessions s userId = Some info" "js_to_string (sessionId info) = Inr t"
       "newSession options \<noteq> Some True" for info t
    by (rule invoked_commands_built)
       (simp add: command_line_resume[of "sessions s" userId info options] that)
  have fresh: "invoked_commands h prompt userId options s = [base_command prompt options]"
    if "sessions s userId = None \<or> newSession options = Some True"
    by (rule invoked_commands_built) (simp add: command_line_fresh that)
  have iff: "(\<exists>t. cmd = base_command prompt options @ '' --resume '' @ t) \<longleftrightarrow>
         sessions s userId \<noteq> None \<and> newSession options \<noteq> Some True"
    if m: "cmd \<in> set (invoked_commands h prompt userId options s)" for cmd
  proof (cases "command_line (sessions s) prompt userId options")
    case (Inl e)
    with m show ?thesis by (simp add: invoked_commands_thrown)
  next
    case (Inr c)
    with m have "cmd = c" by (simp add: invoked_commands_built)
    with command_line_Inr[OF Inr] show ?thesis by auto
  qed
  have two: "invoked_commands h prompt userId options s =
        [base_command prompt options @ '' --resume '' @ t1]"
    if a: "claude_code_execute h1 prompt1 userId options1 s0 = (Inr r1, s)" "success r1"
       "js_truthy (result_sessionId r1)" "js_to_string (result_sessionId r1) = Inr t1"
       "newSession options \<noteq> Some True"
    for h1 prompt1 options1 s0 r1 t1
  proof -
    from a(1,2,3) obtain info where
      i: "sessions s userId = Some info" "sessionId info = result_sessionId r1"
      using sessions_after_token by blast
    from i a(4) have "js_to_string (sessionId info) = Inr t1" by simp
    with i(1) a(5) show ?thesis using conv[of info t1] by simp
  qed
  have none: "invoked_commands h prompt userId options s = []"
    if "sessions s userId = Some info" "js_to_string (sessionId info) = Inl e"
       "newSession options \<noteq> Some True" for info e
    by (rule invoked_commands_thrown[of _ _ _ _ e])
       (simp add: command_line_resume[of "sessions s" userId info options] that)
  show ?thesis
  proof (intro conjI allI impI)
    fix cmd assume "cmd \<in> set (invoked_commands h prompt userId options s)"
    then show "(\<exists>t. cmd = base_command prompt options @ '' --resume '' @ t) \<longleftrightarrow>
         sessions s userId \<noteq> None \<and> newSession options \<noteq> Some True"
      by (rule iff)
  next
    fix info t
    assume "sessions s userId = Some info \<and> sessionId info = JStr t \<and>
        newSession options \<noteq> Some True"
    then show "invoked_commands h prompt userId options s =
        [base_command prompt options @ '' --resume '' @ t]"
      using conv[of info t] by simp
  next
    fix info t
    assume "sessions s userId = Some info \<and> js_to_string (sessionId info) = Inr t \<and>
        newSession options \<noteq> Some True"
    then show "invoked_commands h prompt userId options s =
        [base_command prompt options @ '' --resume '' @ t]"
      using conv[of info t] by simp
  next
    assume "sessions s userId = None \<or> newSession options = Some True"
    then show "invoked_commands h prompt userId options s = [base_command prompt options]"
      by (rule fresh)
  next
    fix h1 prompt1 options1 s0 r1 t1
    assume "claude_code_execute h1 prompt1 userId options1 s0 = (Inr r1, s) \<and> success r1 \<and>
      result_sessionId r1 = JStr t1 \<and> t1 \<noteq> [] \<and> newSession options \<noteq> Some True"
    then show "invoked_commands h prompt userId options s =
        [base_command prompt options @ '' --resume '' @ t1]"
      using two[of h1 prompt1 options1 s0 r1 t1] by simp
  next
    fix h1 prompt1 options1 s0 r1 t1
    assume "claude_code_execute h1 prompt1 userId options1 s0 = (Inr r1, s) \<and> success r1 \<and>
      js_truthy (result_sessionId r1) \<and> js_to_string (result_sessionId r1) = Inr t1 \<and>
      newSession options \<noteq> Some True"
    then show "invoked_commands h prompt userId options s =
        [base_command prompt options @ '' --resume '' @ t1]"
      using two[of h1 prompt1 options1 s0 r1 t1] by simp
  next
    fix info e
    assume "sessions s userId = Some info \<and> js_to_string (sessionId info) = Inl e \<and>
        newSession options \<noteq> Some True"
    then show "invoked_commands h prompt userId options s = []"
      using none[of info e] by simp
  qed
qed

text \<open>
  Witness for C2: after the first scenario stored \<open>s-1\<close> for \<open>u1\<close>, the next call hands
  over one command, which resumes \<open>s-1\<close>, and the same call with \<open>newSession = true\<close>
  hands over the command without \<open>--resume\<close>.
\<close>

theorem resume_iff_session_and_not_forced_witness:
  "invoked_commands host_json ''what is in that file now'' ''u1'' no_options
     (snd (claude_code_execute host_json ''create a file report.txt'' ''u1'' no_options
       initial)) =
     [''claude -p '' @ [DQUOTE] @ ''what is in that file now'' @ [DQUOTE]
       @ '' --output-format json --allowedTools '' @ [DQUOTE]
       @ ''Read,Write,Edit,Bash,Glob,Grep,WebFetch,WebSearch'' @ [DQUOTE]
       @ '' --resume s-1''] \<and>
   invoked_commands host_json ''what is in that file now'' ''u1'' force_new_options
     (snd (claude_code_execute host_json ''create a file report.txt'' ''u1'' no_options
       initial)) =
     [''claude -p '' @ [DQUOTE] @ ''what is in that file now'' @ [DQUOTE]
       @ '' --output-format json --allowedTools '' @ [DQUOTE]
       @ ''Read,Write,Edit,Bash,Glob,Grep,WebFetch,WebSearch'' @ [DQUOTE]]"
  using resume_iff_session_and_not_forced[of host_json "''what is in that file now''" "''u1''"
          no_options
          "snd (claude_code_execute host_json ''create a file report.txt'' ''u1'' no_options
             initial)"]
        resume_iff_session_and_not_forced[of host_json "''what is in that file now''" "''u1''"
          force_new_options
          "snd (claude_code_execute host_json ''create a file report.txt'' ''u1'' no_options
             initial)"]
  by (simp add: first_call_session options_eval base_command_examples)

subsection \<open>C3: what sanitization leaves in the prompt\<close>

text \<open>
  Claim C3 says that every substring of the prompt that resembles a control flag is
  stripped, in particular a flag that supplies a session identifier. \<open>sanitizePrompt\<close>
  removes three patterns only, each in one pass: \<open>--resume abc\<close> is left as it is and
  reaches the constructed command, and \<open>--allowedTools\<close> survives when it is what remains
  after the inner occurrence has been removed.
\<close>

theorem sanitizePrompt_leaves_flags:
  "sanitizePrompt ''--resume abc'' = ''--resume abc'' \<and>
   sanitizePrompt ''--allowed--allowedToolsTools'' = ''--allowedTools'' \<and>
   invoked_commands host_text ''--resume abc'' ''u1'' no_options initial =
     [''claude -p '' @ [DQUOTE] @ ''--resume abc'' @ [DQUOTE]
       @ '' --output-format json --allowedTools '' @ [DQUOTE]
       @ ''Read,Write,Edit,Bash,Glob,Grep,WebFetch,WebSearch'' @ [DQUOTE]]"
proof -
  have "invoked_commands host_text ''--resume abc'' ''u1'' no_options initial =
          [base_command ''--resume abc'' no_options]"
    by (rule invoked_commands_built) (simp add: command_line_fresh initial_sessions)
  then show ?thesis
    by (simp add: base_command_examples sanitizePrompt_def lits_def ascii_lower_def
          is_space_def)
qed

subsection \<open>C4: the result invariant, and what is thrown\<close>

text \<open>
  Claim C4 says that every result satisfies the invariant, that every failure of the
  subprocess is captured into such a result, and that \<open>claude_code_execute\<close> never throws
  past its boundary. The first two hold (\<open>returned_result_invariant\<close>,
  \<open>rejection_is_captured\<close>). The third does not: the template literal of line 99 stands
  before the \<open>try\<close>. After a call whose command printed
  \<open>{"sessionId": {"toString": 0}}\<close>, the stored token is an object whose conversion to
  a string throws; the next call for that user throws a \<open>TypeError\<close> instead of returning
  a result, and hands nothing to the external process.
\<close>

theorem execute_throws_before_try:
  "fst (claude_code_execute host_object_token ''hi'' ''u1'' no_options initial) =
     Inr \<lparr>success = True, output_r = JStr object_token_text,
           result_sessionId = JObj [(''toString'', JNum False ''0'')],
           error = None, executionTime = Some 7\<rparr> \<and>
   fst (claude_code_execute host_text ''again'' ''u1'' no_options
     (snd (claude_code_execute host_object_token ''hi'' ''u1'' no_options initial))) =
     Inl (Error ''Cannot convert object to primitive value'') \<and>
   invoked_commands host_text ''again'' ''u1'' no_options
     (snd (claude_code_execute host_object_token ''hi'' ''u1'' no_options initial)) = []"
proof -
  have c: "command_line
             (sessions (snd (claude_code_execute host_object_token ''hi'' ''u1'' no_options
                initial)))
             ''again'' ''u1'' no_options = Inl (Error ''Cannot convert object to primitive value'')"
    by (simp add: command_line_def Let_def object_token_session options_eval object_token_def)
  have f: "fst (claude_code_execute host_object_token ''hi'' ''u1'' no_options initial) =
     Inr \<lparr>success = True, output_r = JStr object_token_text,
           result_sessionId = JObj [(''toString'', JNum False ''0'')],
           error = None, executionTime = Some 7\<rparr>"
    by (simp add: claude_code_execute_def command_line_fresh initial_sessions execute_try_def
        hosts_eval Let_def read_sessionId_def read_output_def thenT_def js_or_def
        object_token_def host_object_token_def)
  from c f show ?thesis
    by (simp add: execute_thrown invoked_commands_thrown)
qed

subsection \<open>C5: empty prompt, empty user\<close>




subsection \<open>C6: the escaped prompt, read back by the shell\<close>

text \<open>
  Claim C6 says that the shell, reading the double-quoted argument back, obtains exactly
  the sanitized prompt. For the prompt \<open>hi!\<close> it obtains \<open>hi\!\<close>: inside double quotes
  a backslash before an exclamation mark is not removed.
\<close>

theorem escapeForShell_bang_not_restored:
  "sh_dquote (escapeForShell ''hi!'' @ [DQUOTE]) = Some (''hi'' @ [BACKSLASH, BANG], []) \<and>
   ''hi'' @ [BACKSLASH, BANG] \<noteq> ''hi!''"
  by (simp add: escapeForShell_def)

subsection \<open>C7: output that is not JSON\<close>

text \<open>
  Claim C7: when the subprocess completes without error and its standard output is not
  parseable as JSON, \<open>claude_code_execute\<close> returns \<open>success = true\<close> with the raw
  standard output as the output, and no error.
\<close>

theorem parse_degraded_is_success:
  assumes "command_line (sessions s) prompt userId options = Inr cmd"
    and "execAsync h cmd (execOptions_of h options) = Resolved stdout stderr"
    and "JSON_parse h stdout = None"
  shows "\<exists>r. fst (claude_code_execute h prompt userId options s) = Inr r \<and>
           success r \<and> output_r r = JStr stdout \<and> error r = None"
  using assms
  by (simp add: claude_code_execute_def execute_try_def Let_def
        read_output_unparsed read_sessionId_unparsed)

text \<open>Witness for C7: the command prints \<open>ok\<close>, which is the output of the result.\<close>

theorem parse_degraded_is_success_witness:
  "\<exists>r. fst (claude_code_execute host_text ''hi'' ''u1'' no_options initial) = Inr r \<and>
     success r \<and> output_r r = JStr ''ok'' \<and> error r = None"
proof -
  have c: "command_line (sessions initial) ''hi'' ''u1'' no_options =
             Inr (base_command ''hi'' no_options)"
    by (simp add: command_line_fresh initial_sessions)
  show ?thesis
    by (rule parse_degraded_is_success[OF c]) (simp_all add: hosts_eval)
qed

subsection \<open>C8: direct patterns take priority\<close>

text \<open>
  Claim C8: for every message text that matches at least one "always direct" pattern,
  \<open>route\<close> returns false, whatever the "route to agent" patterns match.
\<close>

theorem direct_patterns_take_priority:
  "matches_any (always_direct cfg) text \<Longrightarrow> route cfg text = False"
  by (simp add: route_def)

text \<open>
  Witness for C8: a message that matches \<open>time\<close> among the direct patterns and \<open>file\<close>
  among the agent patterns is handled directly.
\<close>

theorem direct_patterns_take_priority_witness:
  "matches_any (always_direct example_routing) ''what time is it in this file'' \<and>
   matches_any (route_to_agent example_routing) ''what time is it in this file'' \<and>
   route example_routing ''what time is it in this file'' = False"
proof -
  have d: "matches_any (always_direct example_routing) ''what time is it in this file''"
    by code_simp
  have a: "matches_any (route_to_agent example_routing) ''what time is it in this file''"
    by code_simp
  from direct_patterns_take_priority[OF d] d a show ?thesis by simp
qed

subsection \<open>C9: the table of processes in flight\<close>

text \<open>
  Claim C9: in every reachable state of the bridge the table \<open>activeProcesses\<close> is empty
  (\<open>claude_code_execute\<close> never enters the child into it), so that \<open>claude_code_cancel\<close>
  returns false for every user, leaves the state as it is, and no signal has ever been
  sent.
\<close>

theorem activeProcesses_always_empty:
  "reachable s \<Longrightarrow>
     activeProcesses s = Map.empty \<and> signalled s = [] \<and>
     (\<forall>userId. claude_code_cancel userId s = (False, s))"
  using reachable_no_process cancel_nothing by blast

text \<open>Witness for C9: the state after the first scenario, while a session exists.\<close>

theorem activeProcesses_always_empty_witness:
  "reachable (snd (claude_code_execute host_json ''create a file report.txt'' ''u1'' no_options
      initial)) \<and>
   activeProcesses (snd (claude_code_execute host_json ''create a file report.txt'' ''u1''
      no_options initial)) = Map.empty \<and>
   fst (claude_code_cancel ''u1'' (snd (claude_code_execute host_json
      ''create a file report.txt'' ''u1'' no_options initial))) = False"
proof -
  have r: "reachable (snd (claude_code_execute host_json ''create a file report.txt'' ''u1''
      no_options initial))"
    by (rule reachable.execute[OF reachable.start])
  from activeProcesses_always_empty[OF r] r show ?thesis by simp
qed

subsection \<open>C10: clearing a session twice\<close>

text \<open>
  Claim C10: \<open>claude_code_clear_session\<close> returns whether a record existed; if a session
  record exists for the user, it returns true and removes the record, and the call that
  follows immediately returns false.
\<close>

theorem clear_session_true_then_false:
  "(fst (claude_code_clear_session userId s) \<longleftrightarrow> sessions s userId \<noteq> None) \<and>
   (sessions s userId \<noteq> None \<longrightarrow>
      fst (claude_code_clear_session userId s) \<and>
      sessions (snd (claude_code_clear_session userId s)) userId = None \<and>
      \<not> fst (claude_code_clear_session userId (snd (claude_code_clear_session userId s))))"
  by (simp add: claude_code_clear_session_def)

text \<open>Witness for C10: the session that the first scenario created for \<open>u1\<close>.\<close>

theorem clear_session_true_then_false_witness:
  "sessions (snd (claude_code_execute host_json ''create a file report.txt'' ''u1'' no_options
      initial)) ''u1'' \<noteq> None \<and>
   fst (claude_code_clear_session ''u1'' (snd (claude_code_execute host_json
      ''create a file report.txt'' ''u1'' no_options initial))) \<and>
   \<not> fst (claude_code_clear_session ''u1'' (snd (claude_code_clear_session ''u1''
      (snd (claude_code_execute host_json ''create a file report.txt'' ''u1'' no_options
         initial)))))"
  using clear_session_true_then_false[of "''u1''"
          "snd (claude_code_execute host_json ''create a file report.txt'' ''u1'' no_options
             initial)"]
  by (simp add: first_call_session)

end
